theory Spec2Isabelle
  imports Complex_Main
begin

section \<open>JavaScript strings\<close>

text \<open>
  A JavaScript string is modelled as a \<open>string\<close> (a list of \<open>char\<close>), one \<open>char\<close> per code
  unit, for the code units below 256. \<open>isSpace\<close> is the white space of \<open>String.prototype.trim\<close>
  and of the regular expression class \<open>\s\<close> in that range: TAB, LF, VT, FF, CR, SPACE and
  NBSP.
\<close>

definition isSpace :: "char \<Rightarrow> bool" where
  "isSpace c \<longleftrightarrow> c = CHR 0x09 \<or> c = CHR 0x0A \<or> c = CHR 0x0B \<or> c = CHR 0x0C \<or>
     c = CHR 0x0D \<or> c = CHR 0x20 \<or> c = CHR 0xA0"

text \<open>The class \<open>\d\<close>: the ASCII digits.\<close>

definition isDigit :: "char \<Rightarrow> bool" where
  "isDigit c \<longleftrightarrow> (48::nat) \<le> of_char c \<and> of_char c \<le> (57::nat)"

text \<open>\<open>s.trim()\<close>.\<close>

definition trim :: "string \<Rightarrow> string" where
  "trim s = rev (dropWhile isSpace (rev (dropWhile isSpace s)))"

text \<open>\<open>s.startsWith(p)\<close>.\<close>

definition startsWith :: "string \<Rightarrow> string \<Rightarrow> bool" where
  "startsWith s p \<longleftrightarrow> take (length p) s = p"

text \<open>\<open>s.includes(p)\<close>.\<close>

fun js_includes :: "string \<Rightarrow> string \<Rightarrow> bool" where
  "js_includes [] p = (p = [])"
| "js_includes (c # cs) p = (startsWith (c # cs) p \<or> js_includes cs p)"

text \<open>\<open>s.toLowerCase()\<close>: the ASCII letters and the Latin-1 capitals.\<close>

definition toLowerChar :: "char \<Rightarrow> char" where
  "toLowerChar c =
     (case map_of (zip ''ABCDEFGHIJKLMNOPQRSTUVWXYZ'' ''abcdefghijklmnopqrstuvwxyz'') c of
        Some d \<Rightarrow> d
      | None \<Rightarrow>
          (if (192::nat) \<le> of_char c \<and> of_char c \<le> (222::nat) \<and> of_char c \<noteq> (215::nat)
           then char_of (of_char c + (32::nat)) else c))"

definition toLowerCase :: "string \<Rightarrow> string" where
  "toLowerCase s = map toLowerChar s"

text \<open>\<open>s.split("\n")\<close>: never empty; the empty string gives one empty line.\<close>

fun split_newline :: "string \<Rightarrow> string list" where
  "split_newline [] = [[]]"
| "split_newline (c # cs) =
     (if c = CHR 0x0A then [] # split_newline cs
      else (case split_newline cs of t # ts \<Rightarrow> (c # t) # ts | [] \<Rightarrow> [[c]]))"

text \<open>
  \<open>s.split(/\s+/)\<close>: every maximal run of white space is one separator; a run at the start
  or at the end leaves an empty first or last field, and the empty string gives one empty
  field.
\<close>

fun split_space :: "string \<Rightarrow> string list" where
  "split_space [] = [[]]"
| "split_space (c # cs) =
     (if isSpace c then
        (case cs of
           d # _ \<Rightarrow> if isSpace d then split_space cs else [] # split_space cs
         | [] \<Rightarrow> [] # split_space cs)
      else (case split_space cs of t # ts \<Rightarrow> (c # t) # ts | [] \<Rightarrow> [[c]]))"

text \<open>
  \<open>s.match(/(\d+)/)\<close>: \<open>None\<close> for \<open>null\<close>, otherwise group 1, the leftmost maximal run of
  digits.
\<close>

definition match_digits :: "string \<Rightarrow> string option" where
  "match_digits s =
     (let r = dropWhile (\<lambda>c. \<not> isDigit c) s
      in if r = [] then None else Some (takeWhile isDigit r))"

text \<open>\<open>s.substring(a, b)\<close> for \<open>a \<le> b\<close>.\<close>

definition substring :: "string \<Rightarrow> nat \<Rightarrow> nat \<Rightarrow> string" where
  "substring s a b = take (b - a) (drop a s)"

section \<open>JavaScript numbers\<close>

text \<open>
  A JavaScript number is modelled as \<open>NaN\<close>, an infinity, or a real: a finite double is
  idealised as the real it stands for, so rounding is not modelled (integers are exact in
  JavaScript below \<open>2 ^ 53\<close>). There is one zero: none of the functions below can produce
  the negative zero, since every parsed field passes \<open>|| 0\<close> and every divisor is a count
  or a product of counts.
\<close>

datatype jsnum = NaN | NegInf | Num real | PosInf

fun js_neg :: "jsnum \<Rightarrow> jsnum" where
  "js_neg NaN = NaN"
| "js_neg NegInf = PosInf"
| "js_neg PosInf = NegInf"
| "js_neg (Num x) = Num (- x)"

fun js_add :: "jsnum \<Rightarrow> jsnum \<Rightarrow> jsnum" where
  "js_add (Num x) (Num y) = Num (x + y)"
| "js_add NaN _ = NaN"
| "js_add _ NaN = NaN"
| "js_add PosInf NegInf = NaN"
| "js_add NegInf PosInf = NaN"
| "js_add PosInf _ = PosInf"
| "js_add _ PosInf = PosInf"
| "js_add NegInf _ = NegInf"
| "js_add _ NegInf = NegInf"

definition js_sub :: "jsnum \<Rightarrow> jsnum \<Rightarrow> jsnum" where
  "js_sub a b = js_add a (js_neg b)"

fun js_sign :: "jsnum \<Rightarrow> int" where
  "js_sign NaN = 0"
| "js_sign NegInf = - 1"
| "js_sign PosInf = 1"
| "js_sign (Num x) = (if x < 0 then - 1 else if x = 0 then 0 else 1)"

fun js_mul :: "jsnum \<Rightarrow> jsnum \<Rightarrow> jsnum" where
  "js_mul (Num x) (Num y) = Num (x * y)"
| "js_mul NaN _ = NaN"
| "js_mul _ NaN = NaN"
| "js_mul a b =
     (if js_sign a * js_sign b = 0 then NaN
      else if 0 < js_sign a * js_sign b then PosInf else NegInf)"

text \<open>Division; the zero divisor is the positive zero.\<close>

fun js_div :: "jsnum \<Rightarrow> jsnum \<Rightarrow> jsnum" where
  "js_div (Num x) (Num y) =
     (if y \<noteq> 0 then Num (x / y)
      else if x = 0 then NaN else if 0 < x then PosInf else NegInf)"
| "js_div NaN _ = NaN"
| "js_div _ NaN = NaN"
| "js_div (Num x) _ = Num 0"
| "js_div PosInf (Num y) = (if 0 \<le> y then PosInf else NegInf)"
| "js_div NegInf (Num y) = (if 0 \<le> y then NegInf else PosInf)"
| "js_div _ _ = NaN"

text \<open>\<open>a < b\<close>; false when either side is \<open>NaN\<close>.\<close>

fun js_lt :: "jsnum \<Rightarrow> jsnum \<Rightarrow> bool" where
  "js_lt (Num x) (Num y) = (x < y)"
| "js_lt NaN _ = False"
| "js_lt _ NaN = False"
| "js_lt _ NegInf = False"
| "js_lt NegInf _ = True"
| "js_lt PosInf _ = False"
| "js_lt _ PosInf = True"

text \<open>\<open>Math.max(a, b)\<close> and \<open>Math.min(a, b)\<close>: \<open>NaN\<close> when either argument is.\<close>

definition js_max :: "jsnum \<Rightarrow> jsnum \<Rightarrow> jsnum" where
  "js_max a b = (if a = NaN \<or> b = NaN then NaN else if js_lt a b then b else a)"

definition js_min :: "jsnum \<Rightarrow> jsnum \<Rightarrow> jsnum" where
  "js_min a b = (if a = NaN \<or> b = NaN then NaN else if js_lt b a then b else a)"

text \<open>Truthiness of a number, and \<open>a || b\<close> on numbers.\<close>

definition js_truthy :: "jsnum \<Rightarrow> bool" where
  "js_truthy a \<longleftrightarrow> a \<noteq> NaN \<and> a \<noteq> Num 0"

definition js_or :: "jsnum \<Rightarrow> jsnum \<Rightarrow> jsnum" where
  "js_or a b = (if js_truthy a then a else b)"

text \<open>A count (an array length, a byte count) as a number.\<close>

definition num :: "nat \<Rightarrow> jsnum" where
  "num n = Num (real n)"

subsection \<open>Parsing and printing\<close>

text \<open>The value of a character as a digit of a radix up to 36.\<close>

definition digit_of :: "char \<Rightarrow> nat option" where
  "digit_of c =
     (if isDigit c then Some (of_char c - 48)
      else if (97::nat) \<le> of_char c \<and> of_char c \<le> (122::nat) then Some (of_char c - 87)
      else if (65::nat) \<le> of_char c \<and> of_char c \<le> (90::nat) then Some (of_char c - 55)
      else None)"

definition isRadixDigit :: "nat \<Rightarrow> char \<Rightarrow> bool" where
  "isRadixDigit r c = (case digit_of c of Some v \<Rightarrow> v < r | None \<Rightarrow> False)"

definition radix_val :: "nat \<Rightarrow> string \<Rightarrow> nat" where
  "radix_val r z = foldl (\<lambda>a c. a * r + (case digit_of c of Some v \<Rightarrow> v | None \<Rightarrow> 0)) 0 z"

text \<open>
  \<open>parseInt(s, radix)\<close>, with \<open>None\<close> for a radix left out and for the result \<open>NaN\<close>: leading
  white space and a sign are skipped, \<open>0x\<close> is skipped when the radix is 16 or left out
  (and makes it 16), and the longest prefix of digits of the radix is read. The radix, when
  given, is between 2 and 36.
\<close>

definition parseInt :: "string \<Rightarrow> nat option \<Rightarrow> int option" where
  "parseInt s radix =
     (let t = dropWhile isSpace s;
          neg = startsWith t ''-'';
          u = (if startsWith t ''-'' \<or> startsWith t ''+'' then drop 1 t else t);
          strip = ((radix = None \<or> radix = Some 16) \<and> (startsWith u ''0x'' \<or> startsWith u ''0X''));
          r = (if strip then 16 else (case radix of None \<Rightarrow> 10 | Some k \<Rightarrow> k));
          z = takeWhile (isRadixDigit r) (if strip then drop 2 u else u)
      in if z = [] then None
         else Some ((if neg then - 1 else 1) * int (radix_val r z)))"

definition num_of_int :: "int option \<Rightarrow> jsnum" where
  "num_of_int v = (case v of None \<Rightarrow> NaN | Some i \<Rightarrow> Num (real_of_int i))"



text \<open>The decimal digits of a count, as a template literal prints an integer.\<close>

fun show_nat :: "nat \<Rightarrow> string" where
  "show_nat n =
     (if n < 10 then [''0123456789'' ! n]
      else show_nat (n div 10) @ [''0123456789'' ! (n mod 10)])"

declare show_nat.simps [simp del]

text \<open>\<open>String(v)\<close> for the result of \<open>parseInt\<close>, as \<open>Array.prototype.join\<close> prints it.\<close>

definition show_parsed :: "int option \<Rightarrow> string" where
  "show_parsed v =
     (case v of
        None \<Rightarrow> ''NaN''
      | Some i \<Rightarrow> if i < 0 then ''-'' @ show_nat (nat (- i)) else show_nat (nat i))"

text \<open>\<open>xs.join(".")\<close>.\<close>

fun join_dot :: "string list \<Rightarrow> string" where
  "join_dot [] = []"
| "join_dot [x] = x"
| "join_dot (x # y # ys) = x @ ''.'' @ join_dot (y # ys)"

section \<open>The file system and the process's own facts\<close>

text \<open>
  The module \<open>fs\<close> as the resolver sees it: each call answers on its own, so a state may
  make any of them fail. \<open>existsSync\<close> never throws; the others return \<open>Inl\<close> for a thrown
  error.
\<close>

datatype fs_error = ENOENT | EACCES | EISDIR | EIO

record stats =
  isFile :: bool

record statfs =
  blocks :: nat
  bsize :: nat
  bavail :: nat

record filesystem =
  existsSync :: "string \<Rightarrow> bool"
  statSync :: "string \<Rightarrow> fs_error + stats"
  readFileSync :: "string \<Rightarrow> fs_error + string"
  statfsSync :: "string \<Rightarrow> fs_error + statfs"

text \<open>The module \<open>os\<close>: the resolving process's own readings.\<close>

record cpu_entry =
  model :: string

record net_addr =
  address :: string
  family :: string
  internal :: bool

record os_facts =
  totalmem :: nat
  freemem :: nat
  cpus :: "cpu_entry list"
  hostname :: string
  loadavg :: "real \<times> real \<times> real"
  networkInterfaces :: "(string \<times> net_addr list) list"

section \<open>Source selection (first route module)\<close>

definition HOST_ROOT :: string where
  "HOST_ROOT = ''/host''"

definition isHostMounted :: "filesystem \<Rightarrow> bool" where
  "isHostMounted fs \<longleftrightarrow>
     existsSync fs (HOST_ROOT @ ''/proc'') \<and> existsSync fs (HOST_ROOT @ ''/sys'') \<and>
     existsSync fs (HOST_ROOT @ ''/etc'')"

text \<open>
  The body of each of the three \<open>try\<close> blocks of \<open>readHostFile\<close>, which differ in the path
  only: \<open>Inl e\<close> when a call throws, \<open>Inr (Some s)\<close> when the block returns \<open>s\<close>, \<open>Inr None\<close>
  when control leaves the block at its end.
\<close>

definition readCandidate :: "filesystem \<Rightarrow> string \<Rightarrow> fs_error + string option" where
  "readCandidate fs p =
     (if existsSync fs p then
        (case statSync fs p of
           Inl e \<Rightarrow> Inl e
         | Inr st \<Rightarrow>
             if isFile st then
               (case readFileSync fs p of
                  Inl e \<Rightarrow> Inl e
                | Inr content \<Rightarrow>
                    if content \<noteq> [] \<and> 0 < length (trim content) then Inr (Some (trim content))
                    else Inr None)
             else Inr None)
      else Inr None)"

text \<open>\<open>catch (error) { }\<close>: the error is dropped and control goes on after the block.\<close>

definition swallow :: "'e + 'a option \<Rightarrow> 'a option" where
  "swallow r = (case r of Inl e \<Rightarrow> None | Inr v \<Rightarrow> v)"

text \<open>
  The result of \<open>readHostFile\<close> is \<open>Inr\<close> of the text it returns and \<open>Inl\<close> of an error
  it lets escape. The producer \<open>fallback\<close> is a function to a string, as its type
  \<open>() => string\<close> says.
\<close>

definition readHostFile :: "filesystem \<Rightarrow> string \<Rightarrow> (unit \<Rightarrow> string) \<Rightarrow> fs_error + string" where
  "readHostFile fs path fallback =
     (case (if existsSync fs ''/proc/1/root''
            then swallow (readCandidate fs (''/proc/1/root'' @ path)) else None) of
        Some s \<Rightarrow> Inr s
      | None \<Rightarrow>
          (let hostPath = HOST_ROOT @ path
           in case (if isHostMounted fs then swallow (readCandidate fs hostPath) else None) of
                Some s \<Rightarrow> Inr s
              | None \<Rightarrow>
                  (case swallow (readCandidate fs path) of
                     Some s \<Rightarrow> Inr s
                   | None \<Rightarrow> Inr (fallback ()))))"

section \<open>Metric extractors (first route module)\<close>

subsection \<open>CPU count\<close>

text \<open>The producer \<open>getHostCPUInfo\<close> hands to \<open>readHostFile\<close>.\<close>

definition cpuinfo_fallback :: "os_facts \<Rightarrow> string" where
  "cpuinfo_fallback os =
     (if 0 < length (cpus os)
      then ''model name'' @ [CHR 0x09] @ '': '' @ model (hd (cpus os)) @ [CHR 0x0A] @
           ''processor'' @ [CHR 0x09] @ '': 0''
      else [])"

text \<open>The regular expressions \<open>/^processor\s*[:=]/i\<close> and \<open>/^processor\s+\d+/i\<close>.\<close>

definition re_processor_sep :: "string \<Rightarrow> bool" where
  "re_processor_sep s \<longleftrightarrow>
     toLowerCase (take 9 s) = ''processor'' \<and>
     (case dropWhile isSpace (drop 9 s) of [] \<Rightarrow> False | c # _ \<Rightarrow> c = CHR '':'' \<or> c = CHR ''='')"

definition re_processor_idx :: "string \<Rightarrow> bool" where
  "re_processor_idx s \<longleftrightarrow>
     toLowerCase (take 9 s) = ''processor'' \<and>
     (case drop 9 s of
        [] \<Rightarrow> False
      | c # r \<Rightarrow> isSpace c \<and> (case dropWhile isSpace r of [] \<Rightarrow> False | d # _ \<Rightarrow> isDigit d))"

text \<open>The predicate of \<open>lines.filter\<close> in \<open>getHostCPUInfo\<close>.\<close>

definition isProcessorLine :: "string \<Rightarrow> bool" where
  "isProcessorLine line =
     (let trimmed = trim line
      in startsWith trimmed ''processor'' \<and> (re_processor_sep trimmed \<or> re_processor_idx trimmed))"

text \<open>
  The field \<open>count\<close> of the result of \<open>getHostCPUInfo\<close>. The field \<open>model\<close> is computed
  from the same lines on its own and does not enter the count; it is not part of this
  development.
\<close>

definition getHostCPUInfo_count :: "filesystem \<Rightarrow> os_facts \<Rightarrow> fs_error + jsnum" where
  "getHostCPUInfo_count fs os =
     (case readHostFile fs ''/proc/cpuinfo'' (\<lambda>_. cpuinfo_fallback os) of
        Inl e \<Rightarrow> Inl e
      | Inr cpuInfo \<Rightarrow>
          if cpuInfo \<noteq> [] \<and> 0 < length cpuInfo then
            (let lines = split_newline cpuInfo;
                 processorLines = filter isProcessorLine lines;
                 count = num (length processorLines);
                 count =
                   (if count = Num 0 then
                      (let cpuCountLine = find (\<lambda>line. js_includes (toLowerCase line) ''cpu(s)'') lines;
                           count =
                             (case cpuCountLine of
                                None \<Rightarrow> count
                              | Some l \<Rightarrow>
                                  (case match_digits l of
                                     None \<Rightarrow> count
                                   | Some m \<Rightarrow> num_of_int (parseInt m None)))
                       in if count = Num 0 then num (length (cpus os)) else count)
                    else count)
             in Inr (js_or count (Num 1)))
          else Inr (num (length (cpus os))))"

subsection \<open>Memory\<close>




subsection \<open>CPU usage\<close>




subsection \<open>Disk usage\<close>

definition getHostDiskUsage :: "filesystem \<Rightarrow> fs_error + jsnum" where
  "getHostDiskUsage fs =
     (let rootPath = (if existsSync fs ''/proc/1/root'' then ''/proc/1/root/'' else ''/'')
      in case statfsSync fs rootPath of
           Inl e \<Rightarrow> Inr (Num 0)
         | Inr st \<Rightarrow>
             (let total = js_mul (num (blocks st)) (num (bsize st));
                  free = js_mul (num (bavail st)) (num (bsize st));
                  used = js_sub total free;
                  usage = js_mul (js_div used total) (Num 100)
              in Inr (js_min (js_max usage (Num 0)) (Num 100))))"

subsection \<open>The snapshot\<close>






text \<open>The second \<open>try\<close> block of \<open>GET\<close>: the triple \<open>(diskTotal, diskUsed, diskFree)\<close> after it.\<close>

definition disk_totals :: "filesystem \<Rightarrow> jsnum \<times> jsnum \<times> jsnum" where
  "disk_totals fs =
     (let rootPath = (if existsSync fs ''/proc/1/root'' then ''/proc/1/root/'' else ''/'')
      in case statfsSync fs rootPath of
           Inl e \<Rightarrow> (Num 0, Num 0, Num 0)
         | Inr st \<Rightarrow>
             (let diskTotal = js_mul (num (blocks st)) (num (bsize st));
                  diskFree = js_mul (num (bavail st)) (num (bsize st));
                  diskUsed = js_sub diskTotal diskFree
              in (diskTotal, diskUsed, diskFree)))"


section \<open>The second route module\<close>

text \<open>
  The source file holds a second route module, with its own \<open>readHostFile\<close> (two
  candidates, no \<open>statSync\<close>) and its own extractors. Its functions that share a name with
  the first module's carry the suffix \<open>_v2\<close>.
\<close>

definition readCandidate_v2 :: "filesystem \<Rightarrow> string \<Rightarrow> fs_error + string option" where
  "readCandidate_v2 fs p =
     (if existsSync fs p then
        (case readFileSync fs p of
           Inl e \<Rightarrow> Inl e
         | Inr content \<Rightarrow>
             if content \<noteq> [] \<and> 0 < length (trim content) then Inr (Some (trim content))
             else Inr None)
      else Inr None)"

definition readHostFile_v2 :: "filesystem \<Rightarrow> string \<Rightarrow> (unit \<Rightarrow> string) \<Rightarrow> fs_error + string" where
  "readHostFile_v2 fs path fallback =
     (let hostPath = HOST_ROOT @ path
      in case (if isHostMounted fs then swallow (readCandidate_v2 fs hostPath) else None) of
           Some s \<Rightarrow> Inr s
         | None \<Rightarrow>
             (case swallow (readCandidate_v2 fs path) of
                Some s \<Rightarrow> Inr s
              | None \<Rightarrow> Inr (fallback ())))"




subsection \<open>Hostname\<close>

text \<open>The regular expression \<open>/^[0-9a-f]{12}$/i\<close>.\<close>

definition re_container_id :: "string \<Rightarrow> bool" where
  "re_container_id s \<longleftrightarrow> length s = 12 \<and> list_all (isRadixDigit 16) s"

definition getHostHostname :: "filesystem \<Rightarrow> os_facts \<Rightarrow> fs_error + string" where
  "getHostHostname fs os =
     (case readHostFile_v2 fs ''/etc/hostname'' (\<lambda>_. hostname os) of
        Inl e \<Rightarrow> Inl e
      | Inr h \<Rightarrow>
          if h \<noteq> [] \<and> 0 < length h then
            (if re_container_id h then Inr (hostname os) else Inr h)
          else Inr (hostname os))"

subsection \<open>Default gateway\<close>

text \<open>The \<open>for\<close> loop over the lines of the routing table: \<open>Some ip\<close> when it returns \<open>ip\<close>.\<close>

fun route_loop :: "string list \<Rightarrow> string option" where
  "route_loop [] = None"
| "route_loop (line # rest) =
     (let parts = split_space (trim line)
      in if 3 \<le> length parts \<and> parts ! 1 = ''00000000'' then
           (let gatewayHex = parts ! 2
            in if gatewayHex \<noteq> [] \<and> length gatewayHex = 8 then
                 (let ip = join_dot
                             [show_parsed (parseInt (substring gatewayHex 6 8) (Some 16)),
                              show_parsed (parseInt (substring gatewayHex 4 6) (Some 16)),
                              show_parsed (parseInt (substring gatewayHex 2 4) (Some 16)),
                              show_parsed (parseInt (substring gatewayHex 0 2) (Some 16))]
                  in if ip \<noteq> ''0.0.0.0'' then Some ip else route_loop rest)
               else route_loop rest)
         else route_loop rest)"

text \<open>The two nested loops over \<open>os.networkInterfaces()\<close>, in the order of \<open>Object.keys\<close>.\<close>

fun addr_loop :: "net_addr list \<Rightarrow> string option" where
  "addr_loop [] = None"
| "addr_loop (addr # rest) =
     (if family addr = ''IPv4'' \<and> \<not> internal addr then Some (address addr) else addr_loop rest)"

fun iface_loop :: "(string \<times> net_addr list) list \<Rightarrow> string option" where
  "iface_loop [] = None"
| "iface_loop ((name, iface) # rest) =
     (case addr_loop iface of Some a \<Rightarrow> Some a | None \<Rightarrow> iface_loop rest)"

definition getHostIP :: "filesystem \<Rightarrow> os_facts \<Rightarrow> string" where
  "getHostIP fs os =
     (case (case readHostFile_v2 fs ''/proc/net/route'' (\<lambda>_. []) of
              Inl e \<Rightarrow> None
            | Inr route \<Rightarrow>
                if route \<noteq> [] \<and> 0 < length route then route_loop (split_newline route) else None) of
        Some ip \<Rightarrow> ip
      | None \<Rightarrow>
          (case iface_loop (networkInterfaces os) of
             Some a \<Rightarrow> a
           | None \<Rightarrow> ''Non disponible''))"

section \<open>Notions used to state the properties\<close>

subsection \<open>Candidate tiers\<close>

text \<open>
  The three candidates of the first module's \<open>readHostFile\<close>, in the order they are tried,
  the path each one reads and the check that opens it.
\<close>

datatype tier = ProcRoot | HostMount | Local

fun tier_rank :: "tier \<Rightarrow> nat" where
  "tier_rank ProcRoot = 0"
| "tier_rank HostMount = 1"
| "tier_rank Local = 2"

fun tier_path :: "tier \<Rightarrow> string \<Rightarrow> string" where
  "tier_path ProcRoot path = ''/proc/1/root'' @ path"
| "tier_path HostMount path = ''/host'' @ path"
| "tier_path Local path = path"

fun tier_enabled :: "filesystem \<Rightarrow> tier \<Rightarrow> bool" where
  "tier_enabled fs ProcRoot = existsSync fs ''/proc/1/root''"
| "tier_enabled fs HostMount =
     (existsSync fs ''/host/proc'' \<and> existsSync fs ''/host/sys'' \<and> existsSync fs ''/host/etc'')"
| "tier_enabled fs Local = True"

text \<open>
  A path holds a readable, non-empty regular file: it exists, \<open>statSync\<close> answers with a
  regular file, \<open>readFileSync\<close> answers, and the content is not white space only.
\<close>

definition holds_file :: "filesystem \<Rightarrow> string \<Rightarrow> bool" where
  "holds_file fs p \<longleftrightarrow>
     existsSync fs p \<and>
     (case statSync fs p of Inl e \<Rightarrow> False | Inr st \<Rightarrow> isFile st) \<and>
     (case readFileSync fs p of Inl e \<Rightarrow> False | Inr c \<Rightarrow> trim c \<noteq> [])"

text \<open>The trimmed content of the file at a path.\<close>

definition file_text :: "filesystem \<Rightarrow> string \<Rightarrow> string" where
  "file_text fs p = (case readFileSync fs p of Inl e \<Rightarrow> [] | Inr c \<Rightarrow> trim c)"

definition tier_holds :: "filesystem \<Rightarrow> tier \<Rightarrow> string \<Rightarrow> bool" where
  "tier_holds fs k path \<longleftrightarrow> holds_file fs (tier_path k path)"

definition tier_serves :: "filesystem \<Rightarrow> tier \<Rightarrow> string \<Rightarrow> bool" where
  "tier_serves fs k path \<longleftrightarrow> tier_enabled fs k \<and> tier_holds fs k path"

definition tier_text :: "filesystem \<Rightarrow> tier \<Rightarrow> string \<Rightarrow> string" where
  "tier_text fs k path = file_text fs (tier_path k path)"

subsection \<open>Labelled lines\<close>



text \<open>
  A path holds readable text for the second module, which asks for no \<open>statSync\<close>: it
  exists, \<open>readFileSync\<close> answers, and the content is not white space only.
\<close>

definition holds_text :: "filesystem \<Rightarrow> string \<Rightarrow> bool" where
  "holds_text fs p \<longleftrightarrow>
     existsSync fs p \<and> (case readFileSync fs p of Inl e \<Rightarrow> False | Inr c \<Rightarrow> trim c \<noteq> [])"

subsection \<open>Counters of the aggregate cpu line\<close>






subsection \<open>Routing table lines\<close>

text \<open>
  The white-space separated fields of a line of the routing table. A line is a default
  route when it has at least three fields and the second is \<open>00000000\<close>; its gateway is the
  third field.
\<close>

definition route_fields :: "string \<Rightarrow> string list" where
  "route_fields line = split_space (trim line)"

definition is_default_route :: "string \<Rightarrow> bool" where
  "is_default_route line \<longleftrightarrow> 3 \<le> length (route_fields line) \<and> route_fields line ! 1 = ''00000000''"

definition gateway_field :: "string \<Rightarrow> string" where
  "gateway_field line = route_fields line ! 2"

text \<open>
  A line the resolver passes over: not a default route, a gateway field that is not eight
  characters long, or the gateway \<open>00000000\<close>, which decodes to \<open>0.0.0.0\<close>.
\<close>

definition route_skipped :: "string \<Rightarrow> bool" where
  "route_skipped line \<longleftrightarrow>
     \<not> is_default_route line \<or> length (gateway_field line) \<noteq> 8 \<or> gateway_field line = ''00000000''"

text \<open>
  The value of a hexadecimal digit, the octet read from the pair of digits at an offset,
  and the dotted-decimal address read from the pairs at the offsets 6, 4, 2 and 0.
\<close>

definition hex_value :: "char \<Rightarrow> nat" where
  "hex_value c = (case digit_of c of Some v \<Rightarrow> v | None \<Rightarrow> 0)"

definition octet :: "string \<Rightarrow> nat \<Rightarrow> nat" where
  "octet g i = 16 * hex_value (g ! i) + hex_value (g ! Suc i)"

definition dotted_quad :: "string \<Rightarrow> string" where
  "dotted_quad g =
     show_nat (octet g 6) @ ''.'' @ show_nat (octet g 4) @ ''.'' @ show_nat (octet g 2) @ ''.'' @
     show_nat (octet g 0)"

text \<open>
  The first IPv4 address that is not internal among the process's own interfaces, in the
  order of \<open>Object.keys\<close> and, within an interface, of its addresses.
\<close>

definition external_ipv4 :: "os_facts \<Rightarrow> net_addr option" where
  "external_ipv4 os =
     find (\<lambda>a. family a = ''IPv4'' \<and> \<not> internal a) (concat (map snd (networkInterfaces os)))"

subsection \<open>Example states\<close>

text \<open>
  A file system that holds the given files (path and content) and directories, and answers
  every block-statistics query with \<open>sf\<close>.
\<close>

definition fs_of :: "(string \<times> string) list \<Rightarrow> string list \<Rightarrow> fs_error + statfs \<Rightarrow> filesystem" where
  "fs_of files dirs sf =
     \<lparr>existsSync = (\<lambda>p. p \<in> set (map fst files) \<or> p \<in> set dirs),
      statSync = (\<lambda>p. if p \<in> set (map fst files) then Inr \<lparr>isFile = True\<rparr>
                       else if p \<in> set dirs then Inr \<lparr>isFile = False\<rparr> else Inl ENOENT),
      readFileSync = (\<lambda>p. case map_of files p of
                             Some c \<Rightarrow> Inr c
                           | None \<Rightarrow> if p \<in> set dirs then Inl EISDIR else Inl ENOENT),
      statfsSync = (\<lambda>p. sf)\<rparr>"

text \<open>A file system where every path exists as a regular file that cannot be read.\<close>

definition fs_locked :: filesystem where
  "fs_locked =
     \<lparr>existsSync = (\<lambda>p. True), statSync = (\<lambda>p. Inr \<lparr>isFile = True\<rparr>),
      readFileSync = (\<lambda>p. Inl EACCES), statfsSync = (\<lambda>p. Inl EACCES)\<rparr>"

definition os_example :: os_facts where
  "os_example =
     \<lparr>totalmem = 8589934592, freemem = 4096,
      cpus = [\<lparr>model = ''Xeon''\<rparr>, \<lparr>model = ''Xeon''\<rparr>],
      hostname = ''web-1'', loadavg = (0, 0, 0),
      networkInterfaces =
        [(''lo'', [\<lparr>address = ''127.0.0.1'', family = ''IPv4'', internal = True\<rparr>]),
         (''eth0'', [\<lparr>address = ''fe80::1'', family = ''IPv6'', internal = False\<rparr>,
                     \<lparr>address = ''172.17.0.2'', family = ''IPv4'', internal = False\<rparr>])]\<rparr>"

text \<open>
  Only \<open>/host/etc\<close> is mounted from the host: \<open>/host/etc/os-release\<close> is a readable
  regular file, \<open>/host/proc\<close> and \<open>/host/sys\<close> do not exist, and neither does the
  container's own \<open>/etc/os-release\<close>.
\<close>

definition fs_etc_only :: filesystem where
  "fs_etc_only =
     fs_of [(''/host/etc/os-release'', ''ID=debian'' @ [CHR 0x0A])] [''/'', ''/host'', ''/host/etc'']
       (Inl EIO)"

definition fallback_text :: "unit \<Rightarrow> string" where
  "fallback_text u = ''fallback''"

text \<open>
  The whole host mounted: the host's \<open>os-release\<close> and \<open>hostname\<close> under \<open>/host/etc\<close>,
  and the container's own files, its hostname a container id.
\<close>

definition fs_host_mounted :: filesystem where
  "fs_host_mounted =
     fs_of [(''/host/etc/os-release'', ''ID=debian'' @ [CHR 0x0A]),
            (''/host/etc/hostname'', ''db-host '' @ [CHR 0x0A]),
            (''/etc/os-release'', ''ID=alpine'' @ [CHR 0x0A]),
            (''/etc/hostname'', ''0123456789ab'' @ [CHR 0x0A])]
       [''/'', ''/etc'', ''/host'', ''/host/etc'', ''/host/proc'', ''/host/sys''] (Inl EIO)"






text \<open>
  A state with no readable file at all, and a process whose \<open>os.cpus()\<close> is empty (as
  Node reports where it cannot read the CPU information itself).
\<close>

definition fs_bare :: filesystem where
  "fs_bare = fs_of [] [''/''] (Inl EIO)"

definition os_no_cpus :: os_facts where
  "os_no_cpus = os_example\<lparr>cpus := []\<rparr>"

text \<open>
  A state whose CPU information has no \<open>processor\<close> line and the summary line
  \<open>CPU(s): 4\<close>.
\<close>

definition fs_lscpu :: filesystem where
  "fs_lscpu =
     fs_of [(''/proc/cpuinfo'', ''Architecture: x86_64'' @ [CHR 0x0A] @ ''CPU(s): 4'' @ [CHR 0x0A])]
       [''/'', ''/proc''] (Inl EIO)"

text \<open>
  A state whose root file system reports no blocks, as \<open>ramfs\<close> and other file systems
  without backing storage do.
\<close>

definition fs_zero_blocks :: filesystem where
  "fs_zero_blocks = fs_of [] [''/''] (Inr \<lparr>blocks = 0, bsize = 4096, bavail = 0\<rparr>)"

text \<open>
  A container without host mounts whose \<open>/etc/hostname\<close> holds a container id.
\<close>

definition fs_container_id :: filesystem where
  "fs_container_id = fs_of [(''/etc/hostname'', ''a1b2c3d4e5f6'' @ [CHR 0x0A])] [''/'', ''/etc''] (Inl EIO)"

text \<open>
  A routing table with the header, the default route through \<open>0202000A\<close> and a network
  route; and one whose first default route has no gateway.
\<close>

definition fs_route :: filesystem where
  "fs_route =
     fs_of [(''/proc/net/route'',
             ''Iface Destination Gateway Flags RefCnt Use Metric Mask'' @ [CHR 0x0A] @
             ''eth0 00000000 0202000A 0003 0 0 0 00000000'' @ [CHR 0x0A] @
             ''eth0 0002000A 00000000 0001 0 0 0 00FFFFFF'' @ [CHR 0x0A])]
       [''/'', ''/proc'', ''/proc/net''] (Inl EIO)"

definition fs_two_defaults :: filesystem where
  "fs_two_defaults =
     fs_of [(''/proc/net/route'',
             ''ppp0 00000000 00000000 0001 0 0 0 00000000'' @ [CHR 0x0A] @
             ''eth0 00000000 0202000A 0003 0 0 100 00000000'' @ [CHR 0x0A])]
       [''/'', ''/proc'', ''/proc/net''] (Inl EIO)"

text \<open>
  A process whose only interface is the loopback.
\<close>

definition os_loopback_only :: os_facts where
  "os_loopback_only =
     os_example\<lparr>networkInterfaces :=
       [(''lo'', [\<lparr>address = ''127.0.0.1'', family = ''IPv4'', internal = True\<rparr>])]\<rparr>"

section \<open>Source selection: properties\<close>

lemma trim_Nil [simp]: "trim [] = []"
  by (simp add: trim_def)

lemma swallow_readCandidate:
  "swallow (readCandidate fs p) = (if holds_file fs p then Some (file_text fs p) else None)"
proof -
  have blank: "(c \<noteq> [] \<and> 0 < length (trim c)) \<longleftrightarrow> trim c \<noteq> []" for c
    by (cases "c = []") auto
  show ?thesis
    unfolding readCandidate_def swallow_def holds_file_def file_text_def
    by (simp add: blank split: sum.splits)
qed

lemma isHostMounted_enabled: "isHostMounted fs = tier_enabled fs HostMount"
  by (simp add: isHostMounted_def HOST_ROOT_def)

lemma readHostFile_eq:
  "readHostFile fs path fallback =
     Inr (if tier_serves fs ProcRoot path then tier_text fs ProcRoot path
          else if tier_serves fs HostMount path then tier_text fs HostMount path
          else if tier_serves fs Local path then tier_text fs Local path
          else fallback ())"
  unfolding readHostFile_def Let_def swallow_readCandidate isHostMounted_enabled
  by (simp add: tier_serves_def tier_holds_def tier_text_def HOST_ROOT_def)

lemma tier_serves_text: "tier_serves fs k path \<Longrightarrow> tier_text fs k path \<noteq> []"
  by (auto simp: tier_serves_def tier_holds_def tier_text_def holds_file_def file_text_def
      split: sum.splits)

text \<open>
  C1, as stated, fails: with only \<open>/host/etc\<close> mounted, the host-mount path is the one
  candidate that holds a readable, non-empty regular file, yet the producer's text is
  returned, since \<open>isHostMounted\<close> keeps the host-mount candidate closed.
\<close>

theorem readHostFile_host_gate_counterexample:
  "tier_holds fs_etc_only HostMount ''/etc/os-release'' \<and>
   \<not> tier_holds fs_etc_only ProcRoot ''/etc/os-release'' \<and>
   \<not> tier_holds fs_etc_only Local ''/etc/os-release'' \<and>
   tier_text fs_etc_only HostMount ''/etc/os-release'' = ''ID=debian'' \<and>
   readHostFile fs_etc_only ''/etc/os-release'' fallback_text = Inr ''fallback''"
  by (simp add: readHostFile_eq tier_serves_def tier_holds_def tier_text_def holds_file_def
      file_text_def fs_etc_only_def fs_of_def trim_def isSpace_def fallback_text_def)

text \<open>
  C1, amended: if candidate \<open>k\<close> is open (the process-root candidate when \<open>/proc/1/root\<close>
  exists, the host-mount candidate when \<open>/host/proc\<close>, \<open>/host/sys\<close> and \<open>/host/etc\<close> exist,
  the local candidate always) and holds a readable regular file whose content is not white
  space only, and no candidate tried before it is open and holds such a file, then
  \<open>readHostFile\<close> returns the trimmed content of candidate \<open>k\<close>'s file, whatever the
  candidates tried after it hold. The order is process-root, host-mount, local.
\<close>

theorem readHostFile_first_serving_tier:
  assumes "tier_serves fs k path"
    and "\<forall>j. tier_rank j < tier_rank k \<longrightarrow> \<not> tier_serves fs j path"
  shows "readHostFile fs path fallback = Inr (tier_text fs k path)"
proof (cases k)
  case ProcRoot
  with assms(1) show ?thesis by (simp add: readHostFile_eq)
next
  case HostMount
  with assms(2) have "\<not> tier_serves fs ProcRoot path" by auto
  with HostMount assms(1) show ?thesis by (simp add: readHostFile_eq)
next
  case Local
  with assms(2) have "\<not> tier_serves fs ProcRoot path" and "\<not> tier_serves fs HostMount path"
    by auto
  with Local assms(1) show ?thesis by (simp add: readHostFile_eq)
qed

text \<open>
  The theorem at a state where the same file is mounted with the whole host: the
  host-mount candidate is the first one open and holding a file, and its trimmed content is
  returned although the local candidate holds a file too.
\<close>

theorem readHostFile_first_serving_tier_witness:
  "tier_serves fs_host_mounted HostMount ''/etc/os-release'' \<and>
   tier_serves fs_host_mounted Local ''/etc/os-release'' \<and>
   readHostFile fs_host_mounted ''/etc/os-release'' fallback_text = Inr ''ID=debian''"
proof -
  have serves: "tier_serves fs_host_mounted HostMount ''/etc/os-release''"
    by (simp add: tier_serves_def tier_holds_def holds_file_def fs_host_mounted_def fs_of_def
        trim_def isSpace_def)
  have here: "tier_serves fs_host_mounted Local ''/etc/os-release''"
    by (simp add: tier_serves_def tier_holds_def holds_file_def fs_host_mounted_def fs_of_def
        trim_def isSpace_def)
  have before: "\<forall>j. tier_rank j < tier_rank HostMount \<longrightarrow>
      \<not> tier_serves fs_host_mounted j ''/etc/os-release''"
  proof (intro allI impI)
    fix j assume "tier_rank j < tier_rank HostMount"
    then have "j = ProcRoot" by (cases j) auto
    then show "\<not> tier_serves fs_host_mounted j ''/etc/os-release''"
      by (simp add: tier_serves_def fs_host_mounted_def fs_of_def)
  qed
  have content: "tier_text fs_host_mounted HostMount ''/etc/os-release'' = ''ID=debian''"
    by (simp add: tier_text_def file_text_def fs_host_mounted_def fs_of_def trim_def isSpace_def)
  from readHostFile_first_serving_tier [OF serves before, of fallback_text] serves here content
  show ?thesis by simp
qed

text \<open>
  C2: \<open>readHostFile\<close> never raises. For every path, producer and state it returns a
  text, which is either the non-empty trimmed content of a candidate that is open and
  holds a readable regular file, or, when no candidate is open and holds one, the
  producer's result.
\<close>

theorem readHostFile_never_raises:
  "\<exists>s. readHostFile fs path fallback = Inr s \<and>
     ((\<exists>k. tier_serves fs k path \<and> s = tier_text fs k path \<and> s \<noteq> []) \<or>
      ((\<forall>k. \<not> tier_serves fs k path) \<and> s = fallback ()))"
proof -
  have all: "(\<forall>k. \<not> tier_serves fs k path) \<longleftrightarrow>
      \<not> tier_serves fs ProcRoot path \<and> \<not> tier_serves fs HostMount path \<and>
      \<not> tier_serves fs Local path"
    by (metis tier.exhaust)
  show ?thesis
    unfolding readHostFile_eq all
    using tier_serves_text [of fs _ path] by auto
qed

text \<open>
  The theorem at a state where every read is refused with a permission error: the result
  is the producer's text.
\<close>

theorem readHostFile_never_raises_witness:
  "readHostFile fs_locked ''/proc/stat'' fallback_text = Inr ''fallback''"
proof -
  have none: "\<not> tier_serves fs_locked k ''/proc/stat''" for k
    by (simp add: tier_serves_def tier_holds_def holds_file_def fs_locked_def)
  from readHostFile_never_raises [of fs_locked "''/proc/stat''" fallback_text] none
  show ?thesis by (auto simp: fallback_text_def)
qed

text \<open>The second module's source selection, by cases.\<close>

lemma swallow_readCandidate_v2:
  "swallow (readCandidate_v2 fs p) = (if holds_text fs p then Some (file_text fs p) else None)"
proof -
  have blank: "(c \<noteq> [] \<and> 0 < length (trim c)) \<longleftrightarrow> trim c \<noteq> []" for c
    by (cases "c = []") auto
  show ?thesis
    unfolding readCandidate_v2_def swallow_def holds_text_def file_text_def
    by (simp add: blank split: sum.splits)
qed

lemma readHostFile_v2_eq:
  "readHostFile_v2 fs path fallback =
     Inr (if isHostMounted fs \<and> holds_text fs (''/host'' @ path) then file_text fs (''/host'' @ path)
          else if holds_text fs path then file_text fs path
          else fallback ())"
  unfolding readHostFile_v2_def Let_def swallow_readCandidate_v2
  by (simp add: HOST_ROOT_def)

section \<open>Memory: properties\<close>

lemma isDigit_not_space: "isDigit c \<Longrightarrow> \<not> isSpace c"
  by (auto simp: isDigit_def isSpace_def)

lemma isRadixDigit_10: "isRadixDigit 10 c = isDigit c"
  by (auto simp: isRadixDigit_def digit_of_def isDigit_def)

lemma match_digits_Some:
  assumes "match_digits l = Some ds"
  shows "ds \<noteq> [] \<and> list_all isDigit ds"
proof -
  let ?r = "dropWhile (\<lambda>c. \<not> isDigit c) l"
  from assms have r: "?r \<noteq> []" and ds: "ds = takeWhile isDigit ?r"
    by (auto simp: match_digits_def Let_def split: if_splits)
  from r have "isDigit (hd ?r)"
    using hd_dropWhile [of "\<lambda>c. \<not> isDigit c" l] by simp
  with r have "takeWhile isDigit ?r \<noteq> []"
    by (cases ?r) auto
  moreover have "list_all isDigit (takeWhile isDigit ?r)"
    by (auto simp: list_all_iff dest: set_takeWhileD)
  ultimately show ?thesis using ds by simp
qed

lemma parseInt_digits:
  assumes "ds \<noteq> []" and "list_all isDigit ds"
  shows "parseInt ds None = Some (int (radix_val 10 ds))"
proof -
  from assms obtain c cs where ds: "ds = c # cs" and c: "isDigit c" and cs: "list_all isDigit cs"
    by (cases ds) auto
  have t: "dropWhile isSpace ds = ds"
    using ds c by (simp add: isDigit_not_space)
  have sign: "\<not> startsWith ds ''-''" "\<not> startsWith ds ''+''"
    using ds c by (auto simp: startsWith_def isDigit_def)
  have hex: "\<not> startsWith ds ''0x''" "\<not> startsWith ds ''0X''"
    using ds cs by (cases cs; auto simp: startsWith_def isDigit_def)+
  have z: "takeWhile (isRadixDigit 10) ds = ds"
    using assms(2) by (simp add: takeWhile_eq_all_conv isRadixDigit_10 [abs_def] list_all_iff)
  show ?thesis
    unfolding parseInt_def Let_def t using sign hex assms(1) by (simp add: z)
qed



















section \<open>CPU usage and CPU count: properties\<close>



lemma js_clamp_Num: "js_min (js_max (Num x) (Num 0)) (Num 100) = Num (min 100 (max 0 x))"
  by (auto simp: js_min_def js_max_def)









text \<open>
  On every document that is not empty, the count that \<open>getHostCPUInfo\<close> resolves is at
  least 1: this path ends in \<open>count || 1\<close>.
\<close>

lemma getHostCPUInfo_count_document:
  assumes "readHostFile fs ''/proc/cpuinfo'' (\<lambda>_. cpuinfo_fallback os) = Inr cpuInfo"
    and "cpuInfo \<noteq> []"
  shows "\<exists>n. getHostCPUInfo_count fs os = Inr (Num (real n)) \<and> 1 \<le> n"
proof -
  have or1: "\<exists>n. js_or (Num (real k)) (Num 1) = Num (real n) \<and> 1 \<le> n" for k :: nat
    by (cases "k = 0") (auto simp: js_or_def js_truthy_def intro: exI [of _ 1])
  have parsed: "match_digits l = Some m \<Longrightarrow> num_of_int (parseInt m None) = Num (real (radix_val 10 m))"
    for l m
    using match_digits_Some [of l m] by (simp add: parseInt_digits num_of_int_def)
  show ?thesis
    using assms(2) or1
    by (auto simp: getHostCPUInfo_count_def assms(1) Let_def num_def parsed
        split: option.splits)
qed

text \<open>
  With no \<open>processor\<close> line and the line \<open>CPU(s): 4\<close> the count is 4.
\<close>

lemma getHostCPUInfo_count_lscpu: "getHostCPUInfo_count fs_lscpu os_example = Inr (Num 4)"
proof -
  have doc: "readHostFile fs_lscpu ''/proc/cpuinfo'' (\<lambda>_. cpuinfo_fallback os_example) =
      Inr (''Architecture: x86_64'' @ [CHR 0x0A] @ ''CPU(s): 4'')"
    by (simp add: readHostFile_eq tier_serves_def tier_holds_def tier_text_def holds_file_def
        file_text_def fs_lscpu_def fs_of_def trim_def isSpace_def)
  have no: "\<not> isProcessorLine ''Architecture: x86_64''" "\<not> isProcessorLine ''CPU(s): 4''"
    by (simp_all add: isProcessorLine_def trim_def isSpace_def startsWith_def)
  have inc: "\<not> js_includes (toLowerCase ''Architecture: x86_64'') ''cpu(s)''"
    "js_includes (toLowerCase ''CPU(s): 4'') ''cpu(s)''"
    by (simp_all add: toLowerCase_def toLowerChar_def startsWith_def)
  have four: "match_digits ''CPU(s): 4'' = Some ''4''" "parseInt ''4'' None = Some 4"
    by (simp_all add: match_digits_def isDigit_def parseInt_def isSpace_def startsWith_def
        isRadixDigit_def digit_of_def radix_val_def)
  show ?thesis
    by (simp add: getHostCPUInfo_count_def doc no inc four num_def num_of_int_def js_or_def
        js_truthy_def)
qed

text \<open>
  C6, the count is not always at least 1: with no candidate readable and an empty
  \<open>os.cpus()\<close> the producer's document is empty, and the last \<open>return\<close> of
  \<open>getHostCPUInfo\<close> gives \<open>cpus.length\<close>, which is 0, without the \<open>|| 1\<close> of the
  other path.
\<close>

theorem getHostCPUInfo_count_no_cpus:
  "getHostCPUInfo_count fs_bare os_no_cpus = Inr (Num 0)"
proof -
  have doc: "readHostFile fs_bare ''/proc/cpuinfo'' (\<lambda>_. cpuinfo_fallback os_no_cpus) = Inr []"
    by (simp add: readHostFile_eq tier_serves_def tier_holds_def holds_file_def
        fs_bare_def fs_of_def cpuinfo_fallback_def os_no_cpus_def)
  have none: "cpus os_no_cpus = []"
    by (simp add: os_no_cpus_def)
  show ?thesis
    by (simp add: getHostCPUInfo_count_def doc num_def none)
qed

section \<open>Disk usage and hostname: properties\<close>

text \<open>
  A failed block-statistics query gives usage 0 and the totals 0.
\<close>

lemma getHostDiskUsage_failure:
  assumes "statfsSync fs (if existsSync fs ''/proc/1/root'' then ''/proc/1/root/'' else ''/'') = Inl e"
  shows "getHostDiskUsage fs = Inr (Num 0) \<and> disk_totals fs = (Num 0, Num 0, Num 0)"
  using assms by (simp add: getHostDiskUsage_def disk_totals_def Let_def)

text \<open>
  A successful query of a file system with a positive size gives the totals in bytes and
  the usage clamped to \<open>[0, 100]\<close>.
\<close>

lemma getHostDiskUsage_success:
  assumes "statfsSync fs (if existsSync fs ''/proc/1/root'' then ''/proc/1/root/'' else ''/'') = Inr st"
    and "0 < blocks st * bsize st"
  shows "getHostDiskUsage fs =
           Inr (Num (min 100 (max 0
             ((real (blocks st * bsize st) - real (bavail st * bsize st)) /
              real (blocks st * bsize st) * 100)))) \<and>
         disk_totals fs =
           (Num (real (blocks st * bsize st)),
            Num (real (blocks st * bsize st) - real (bavail st * bsize st)),
            Num (real (bavail st * bsize st)))"
proof -
  from assms(2) have pos: "real (blocks st) * real (bsize st) \<noteq> 0"
    by simp
  show ?thesis
    using assms(1) pos
    by (simp add: getHostDiskUsage_def disk_totals_def Let_def num_def js_sub_def js_clamp_Num)
qed

text \<open>
  C9, the usage is not always within \<open>[0, 100]\<close>: a successful query that reports no
  blocks gives \<open>total = 0\<close> and \<open>used = 0\<close>, the quotient \<open>0 / 0\<close> is \<open>NaN\<close>, and
  \<open>Math.min(Math.max(NaN, 0), 100)\<close> is \<open>NaN\<close>.
\<close>

theorem getHostDiskUsage_zero_blocks:
  "getHostDiskUsage fs_zero_blocks = Inr NaN"
  by (simp add: getHostDiskUsage_def fs_zero_blocks_def fs_of_def Let_def num_def js_sub_def
      js_max_def js_min_def)

text \<open>
  The hexadecimal digits are the characters of \<open>[0-9a-fA-F]\<close>.
\<close>

lemma isRadixDigit_16: "isRadixDigit 16 c \<longleftrightarrow> c \<in> set ''0123456789abcdefABCDEF''"
proof
  define n :: nat where "n = of_char c"
  assume "isRadixDigit 16 c"
  then have "n \<in> {48..57} \<or> n \<in> {97..102} \<or> n \<in> {65..70}"
    by (auto simp: isRadixDigit_def digit_of_def isDigit_def n_def split: if_splits)
  then have "n = 48 \<or> n = 49 \<or> n = 50 \<or> n = 51 \<or> n = 52 \<or> n = 53 \<or> n
      = 54 \<or> n = 55 \<or> n = 56 \<or> n = 57 \<or> n = 97 \<or> n = 98 \<or> n =
      99 \<or> n = 100 \<or> n = 101 \<or> n = 102 \<or> n = 65 \<or> n = 66 \<or> n =
      67 \<or> n = 68 \<or> n = 69 \<or> n = 70"
    by (simp only: atLeastAtMost_iff) arith
  moreover have "c = char_of n"
    by (simp add: n_def)
  ultimately show "c \<in> set ''0123456789abcdefABCDEF''"
    by (elim disjE) (simp_all add: char_of_eq_iff)
next
  assume "c \<in> set ''0123456789abcdefABCDEF''"
  then show "isRadixDigit 16 c"
    by (auto simp: isRadixDigit_def digit_of_def isDigit_def)
qed

lemma getHostHostname_eq:
  assumes "readHostFile_v2 fs ''/etc/hostname'' (\<lambda>_. hostname os) = Inr h" and "h \<noteq> []"
  shows "getHostHostname fs os =
     Inr (if length h = 12 \<and> set h \<subseteq> set ''0123456789abcdefABCDEF'' then hostname os else h)"
proof -
  have "re_container_id h \<longleftrightarrow> length h = 12 \<and> set h \<subseteq> set ''0123456789abcdefABCDEF''"
    unfolding re_container_id_def list_all_iff isRadixDigit_16 by blast
  with assms show ?thesis
    by (simp add: getHostHostname_def)
qed

text \<open>
  C7: where the second module's source selection reads the hostname file (the host's
  \<open>/host/etc/hostname\<close> behind the host-mount check, else the container's own
  \<open>/etc/hostname\<close>) and \<open>h\<close> is its trimmed, non-empty content, the resolver returns the
  process's own \<open>os.hostname()\<close> when \<open>h\<close> is twelve hexadecimal digits, and \<open>h\<close> itself
  otherwise.
\<close>

theorem getHostHostname_container_id:
  assumes "(isHostMounted fs \<and> holds_text fs ''/host/etc/hostname'' \<and>
            h = file_text fs ''/host/etc/hostname'') \<or>
           (\<not> (isHostMounted fs \<and> holds_text fs ''/host/etc/hostname'') \<and>
            holds_text fs ''/etc/hostname'' \<and> h = file_text fs ''/etc/hostname'')"
  shows "getHostHostname fs os =
     Inr (if length h = 12 \<and> set h \<subseteq> set ''0123456789abcdefABCDEF'' then hostname os else h)"
proof -
  from assms have "readHostFile_v2 fs ''/etc/hostname'' (\<lambda>_. hostname os) = Inr h"
    by (auto simp: readHostFile_v2_eq)
  moreover from assms have "h \<noteq> []"
    by (auto simp: holds_text_def file_text_def split: sum.splits)
  ultimately show ?thesis
    by (rule getHostHostname_eq)
qed

text \<open>
  The theorem at a container whose hostname file holds \<open>a1b2c3d4e5f6\<close> (the process's own
  hostname \<open>web-1\<close> is returned), and at a state with the host mounted whose hostname file
  holds \<open>db-host\<close> and a space (returned trimmed).
\<close>

theorem getHostHostname_container_id_witness:
  "getHostHostname fs_container_id os_example = Inr ''web-1'' \<and>
   getHostHostname fs_host_mounted os_example = Inr ''db-host''"
proof -
  have "\<not> (isHostMounted fs_container_id \<and> holds_text fs_container_id ''/host/etc/hostname'') \<and>
      holds_text fs_container_id ''/etc/hostname'' \<and>
      ''a1b2c3d4e5f6'' = file_text fs_container_id ''/etc/hostname''"
    by (simp add: isHostMounted_def HOST_ROOT_def holds_text_def file_text_def fs_container_id_def
        fs_of_def trim_def isSpace_def)
  from getHostHostname_container_id [OF disjI2, OF this, of os_example]
  have a: "getHostHostname fs_container_id os_example = Inr ''web-1''"
    by (simp add: os_example_def)
  have "isHostMounted fs_host_mounted \<and> holds_text fs_host_mounted ''/host/etc/hostname'' \<and>
      ''db-host'' = file_text fs_host_mounted ''/host/etc/hostname''"
    by (simp add: isHostMounted_def HOST_ROOT_def holds_text_def file_text_def fs_host_mounted_def
        fs_of_def trim_def isSpace_def)
  from getHostHostname_container_id [OF disjI1, OF this, of os_example]
  have b: "getHostHostname fs_host_mounted os_example = Inr ''db-host''"
    by simp
  from a b show ?thesis by simp
qed

section \<open>Default gateway: properties\<close>

declare route_loop.simps(2) [simp del]

lemma hex_not_special:
  assumes "isRadixDigit 16 c"
  shows "\<not> isSpace c" "c \<noteq> CHR ''-''" "c \<noteq> CHR ''+''" "c \<noteq> CHR ''x''" "c \<noteq> CHR ''X''"
  using assms unfolding isRadixDigit_16 by (auto simp: isSpace_def)

lemma parseInt_hex_pair:
  assumes "isRadixDigit 16 a" and "isRadixDigit 16 b"
  shows "show_parsed (parseInt [a, b] (Some 16)) = show_nat (16 * hex_value a + hex_value b)"
proof -
  have t: "dropWhile isSpace [a, b] = [a, b]"
    using hex_not_special(1) [OF assms(1)] by simp
  have sign: "\<not> startsWith [a, b] ''-''" "\<not> startsWith [a, b] ''+''"
    using hex_not_special(2,3) [OF assms(1)] by (simp_all add: startsWith_def)
  have pre: "\<not> startsWith [a, b] ''0x''" "\<not> startsWith [a, b] ''0X''"
    using hex_not_special(4,5) [OF assms(2)] by (simp_all add: startsWith_def)
  have z: "takeWhile (isRadixDigit 16) [a, b] = [a, b]"
    using assms by simp
  have v: "radix_val 16 [a, b] = 16 * hex_value a + hex_value b"
    by (simp add: radix_val_def hex_value_def)
  have "parseInt [a, b] (Some 16) =
      (if takeWhile (isRadixDigit 16) [a, b] = [] then None
       else Some (int (radix_val 16 (takeWhile (isRadixDigit 16) [a, b]))))"
    unfolding parseInt_def Let_def t using sign pre by simp
  then have "parseInt [a, b] (Some 16) = Some (int (16 * hex_value a + hex_value b))"
    unfolding z v by simp
  then show ?thesis
    by (simp add: show_parsed_def del: of_nat_add of_nat_mult)
qed

lemma length_8:
  assumes "length g = 8"
  obtains a b c d e f h i where "g = [a, b, c, d, e, f, h, i]"
  using assms by (auto simp: numeral_eq_Suc length_Suc_conv)

lemma route_ip:
  assumes "length g = 8" and "list_all (isRadixDigit 16) g"
  shows "join_dot
           [show_parsed (parseInt (substring g 6 8) (Some 16)),
            show_parsed (parseInt (substring g 4 6) (Some 16)),
            show_parsed (parseInt (substring g 2 4) (Some 16)),
            show_parsed (parseInt (substring g 0 2) (Some 16))] = dotted_quad g"
proof -
  from assms(1) obtain a b c d e f h i where g: "g = [a, b, c, d, e, f, h, i]"
    by (rule length_8)
  with assms(2) show ?thesis
    by (simp add: substring_def parseInt_hex_pair dotted_quad_def octet_def)
qed

lemma route_loop_not_default:
  assumes "\<not> is_default_route line"
  shows "route_loop (line # rest) = route_loop rest"
proof -
  from assms have "\<not> (3 \<le> length (split_space (trim line)) \<and>
      split_space (trim line) ! 1 = ''00000000'')"
    unfolding is_default_route_def route_fields_def .
  then show ?thesis
    unfolding route_loop.simps Let_def by (simp only: if_False)
qed

lemma route_loop_short_gateway:
  assumes "length (gateway_field line) \<noteq> 8"
  shows "route_loop (line # rest) = route_loop rest"
proof -
  from assms have "\<not> (split_space (trim line) ! 2 \<noteq> [] \<and> length (split_space (trim line) ! 2) = 8)"
    unfolding gateway_field_def route_fields_def by blast
  then show ?thesis
    unfolding route_loop.simps Let_def by (simp only: if_False if_cancel)
qed

lemma route_loop_zero_gateway:
  assumes "gateway_field line = ''00000000''"
  shows "route_loop (line # rest) = route_loop rest"
proof -
  have dq: "dotted_quad ''00000000'' = ''0.0.0.0''"
    by (simp add: dotted_quad_def octet_def hex_value_def digit_of_def isDigit_def show_nat.simps)
  have len: "length ''00000000'' = 8" and hex: "list_all (isRadixDigit 16) ''00000000''"
    by (simp_all add: isRadixDigit_16)
  have zero: "join_dot
           [show_parsed (parseInt (substring ''00000000'' 6 8) (Some 16)),
            show_parsed (parseInt (substring ''00000000'' 4 6) (Some 16)),
            show_parsed (parseInt (substring ''00000000'' 2 4) (Some 16)),
            show_parsed (parseInt (substring ''00000000'' 0 2) (Some 16))] = ''0.0.0.0''"
    unfolding route_ip [OF len hex] by (fact dq)
  from assms have g: "split_space (trim line) ! 2 = ''00000000''"
    unfolding gateway_field_def route_fields_def .
  show ?thesis
    unfolding route_loop.simps Let_def g zero by simp
qed

lemma route_loop_skip:
  assumes "route_skipped line"
  shows "route_loop (line # rest) = route_loop rest"
  using assms route_loop_not_default route_loop_short_gateway route_loop_zero_gateway
  unfolding route_skipped_def by blast

lemma route_loop_skipped: "list_all route_skipped pre \<Longrightarrow> route_loop (pre @ rest) = route_loop rest"
proof (induction pre)
  case Nil
  show ?case by simp
next
  case (Cons line pre)
  then show ?case
    using route_loop_skip [of line "pre @ rest"] by simp
qed

lemma route_loop_gateway:
  assumes "is_default_route l" and "length (gateway_field l) = 8"
    and "list_all (isRadixDigit 16) (gateway_field l)"
    and "dotted_quad (gateway_field l) \<noteq> ''0.0.0.0''"
  shows "route_loop (l # post) = Some (dotted_quad (gateway_field l))"
proof -
  have g: "split_space (trim l) ! 2 = gateway_field l"
    by (simp add: gateway_field_def route_fields_def)
  from assms(2) have ne: "gateway_field l \<noteq> []"
    by auto
  from assms(1) have d: "3 \<le> length (split_space (trim l))" "split_space (trim l) ! 1 = ''00000000''"
    by (simp_all add: is_default_route_def route_fields_def)
  show ?thesis
    unfolding route_loop.simps Let_def g route_ip [OF assms(2,3)]
    using d ne assms(2,4) by simp
qed

lemma addr_loop_find:
  "addr_loop xs = map_option address (find (\<lambda>a. family a = ''IPv4'' \<and> \<not> internal a) xs)"
  by (induction xs) auto

lemma find_append_option:
  "find P (xs @ ys) = (case find P xs of Some x \<Rightarrow> Some x | None \<Rightarrow> find P ys)"
  by (induction xs) auto

lemma iface_loop_find:
  "iface_loop ifs =
     map_option address (find (\<lambda>a. family a = ''IPv4'' \<and> \<not> internal a) (concat (map snd ifs)))"
  by (induction ifs rule: iface_loop.induct)
    (auto simp: addr_loop_find find_append_option split: option.splits)

lemma getHostIP_eq:
  assumes "readHostFile_v2 fs ''/proc/net/route'' (\<lambda>_. []) = Inr route"
  shows "getHostIP fs os =
     (case route_loop (split_newline route) of
        Some ip \<Rightarrow> ip
      | None \<Rightarrow> (case external_ipv4 os of Some a \<Rightarrow> address a | None \<Rightarrow> ''Non disponible''))"
proof (cases "route = []")
  case True
  have "route_loop [[]] = None"
    by (simp add: route_loop.simps trim_def)
  with True show ?thesis
    by (simp add: getHostIP_def assms iface_loop_find external_ipv4_def split: option.splits)
next
  case False
  then show ?thesis
    by (simp add: getHostIP_def assms iface_loop_find external_ipv4_def split: option.splits)
qed

lemma dotted_quad_example: "dotted_quad ''0202000A'' = ''10.0.2.2''"
  by (simp add: dotted_quad_def octet_def hex_value_def digit_of_def isDigit_def show_nat.simps)

lemma hex_example: "list_all (isRadixDigit 16) ''0202000A''"
  by (simp add: isRadixDigit_16)

text \<open>
  C8, amended: for every routing-table document, the resolver returns the decoded
  gateway of the first line that is a default route (second field \<open>00000000\<close>) with a
  gateway of eight hexadecimal digits whose address is not \<open>0.0.0.0\<close>, when every line
  before it is no default route, has a gateway field that is not eight characters long, or
  has the gateway \<open>00000000\<close>. The address is the four octets read from the digit pairs
  at the offsets 6, 4, 2 and 0, so the gateway \<open>0202000A\<close> gives \<open>10.0.2.2\<close>. When every
  line is of the kind passed over (also when nothing could be read), the resolver returns
  the first IPv4 address that is not internal among the process's own interfaces, and
  \<open>Non disponible\<close> when there is none.
\<close>

theorem getHostIP_default_gateway:
  assumes "readHostFile_v2 fs ''/proc/net/route'' (\<lambda>_. []) = Inr route"
  shows "(\<forall>pre l post.
            split_newline route = pre @ l # post \<and> list_all route_skipped pre \<and>
            is_default_route l \<and> length (gateway_field l) = 8 \<and>
            list_all (isRadixDigit 16) (gateway_field l) \<and>
            dotted_quad (gateway_field l) \<noteq> ''0.0.0.0'' \<longrightarrow>
            getHostIP fs os = dotted_quad (gateway_field l)) \<and>
         (\<forall>pre l post.
            split_newline route = pre @ l # post \<and> list_all route_skipped pre \<and>
            is_default_route l \<and> gateway_field l = ''0202000A'' \<longrightarrow>
            getHostIP fs os = ''10.0.2.2'') \<and>
         (list_all route_skipped (split_newline route) \<longrightarrow>
            getHostIP fs os =
              (case external_ipv4 os of Some a \<Rightarrow> address a | None \<Rightarrow> ''Non disponible''))"
proof (intro conjI allI impI)
  fix pre l post
  assume "split_newline route = pre @ l # post \<and> list_all route_skipped pre \<and>
      is_default_route l \<and> length (gateway_field l) = 8 \<and>
      list_all (isRadixDigit 16) (gateway_field l) \<and>
      dotted_quad (gateway_field l) \<noteq> ''0.0.0.0''"
  then show "getHostIP fs os = dotted_quad (gateway_field l)"
    using route_loop_gateway [of l post]
    by (simp add: getHostIP_eq [OF assms] route_loop_skipped)
next
  fix pre l post
  assume a: "split_newline route = pre @ l # post \<and> list_all route_skipped pre \<and>
      is_default_route l \<and> gateway_field l = ''0202000A''"
  then have "length (gateway_field l) = 8" "list_all (isRadixDigit 16) (gateway_field l)"
    "dotted_quad (gateway_field l) \<noteq> ''0.0.0.0''"
    by (simp_all add: dotted_quad_example isRadixDigit_16)
  with a have "route_loop (l # post) = Some ''10.0.2.2''"
    using route_loop_gateway [of l post] by (simp add: dotted_quad_example)
  with a show "getHostIP fs os = ''10.0.2.2''"
    by (simp add: getHostIP_eq [OF assms] route_loop_skipped)
next
  assume "list_all route_skipped (split_newline route)"
  then have "route_loop (split_newline route) = None"
    using route_loop_skipped [of "split_newline route" "[]"] by simp
  then show "getHostIP fs os =
      (case external_ipv4 os of Some a \<Rightarrow> address a | None \<Rightarrow> ''Non disponible'')"
    by (simp add: getHostIP_eq [OF assms])
qed

text \<open>
  C8, as stated, fails: the first line whose second field is \<open>00000000\<close> has the gateway
  \<open>00000000\<close>, which decodes to \<open>0.0.0.0\<close>; the resolver passes over it and returns the
  gateway of the second default route.
\<close>

theorem getHostIP_zero_gateway_counterexample:
  "file_text fs_two_defaults ''/proc/net/route'' =
     ''ppp0 00000000 00000000 0001 0 0 0 00000000'' @ [CHR 0x0A] @
     ''eth0 00000000 0202000A 0003 0 0 100 00000000'' \<and>
   split_newline (file_text fs_two_defaults ''/proc/net/route'') =
     [''ppp0 00000000 00000000 0001 0 0 0 00000000'',
      ''eth0 00000000 0202000A 0003 0 0 100 00000000''] \<and>
   is_default_route ''ppp0 00000000 00000000 0001 0 0 0 00000000'' \<and>
   gateway_field ''ppp0 00000000 00000000 0001 0 0 0 00000000'' = ''00000000'' \<and>
   dotted_quad ''00000000'' = ''0.0.0.0'' \<and>
   getHostIP fs_two_defaults os_example = ''10.0.2.2''"
proof -
  let ?ppp = "''ppp0 00000000 00000000 0001 0 0 0 00000000''"
  let ?eth = "''eth0 00000000 0202000A 0003 0 0 100 00000000''"
  have content: "file_text fs_two_defaults ''/proc/net/route'' = ?ppp @ [CHR 0x0A] @ ?eth"
    by (simp add: file_text_def fs_two_defaults_def fs_of_def trim_def isSpace_def)
  have doc: "readHostFile_v2 fs_two_defaults ''/proc/net/route'' (\<lambda>_. []) =
      Inr (?ppp @ [CHR 0x0A] @ ?eth)"
    unfolding readHostFile_v2_eq content
    by (simp add: holds_text_def fs_two_defaults_def fs_of_def isHostMounted_def HOST_ROOT_def
        trim_def isSpace_def)
  have lines: "split_newline (?ppp @ [CHR 0x0A] @ ?eth) = [?ppp, ?eth]"
    by simp
  have ppp: "is_default_route ?ppp" "gateway_field ?ppp = ''00000000''"
    by (simp_all add: is_default_route_def gateway_field_def route_fields_def trim_def isSpace_def)
  have eth: "is_default_route ?eth" "gateway_field ?eth = ''0202000A''"
    by (simp_all add: is_default_route_def gateway_field_def route_fields_def trim_def isSpace_def)
  have dq: "dotted_quad ''00000000'' = ''0.0.0.0''"
    by (simp add: dotted_quad_def octet_def hex_value_def digit_of_def isDigit_def show_nat.simps)
  have "route_loop [?ppp, ?eth] = route_loop [?eth]"
    by (rule route_loop_zero_gateway) (fact ppp(2))
  also have "\<dots> = Some (dotted_quad (gateway_field ?eth))"
    by (rule route_loop_gateway) (simp_all add: eth dotted_quad_example isRadixDigit_16)
  finally have "getHostIP fs_two_defaults os_example = ''10.0.2.2''"
    by (simp add: getHostIP_eq [OF doc] lines eth(2) dotted_quad_example)
  with content lines ppp dq show ?thesis
    by simp
qed

text \<open>
  The theorem at a routing table with a header line and the default route through
  \<open>0202000A\<close>, and at a state with no readable routing table, for a process with an
  external IPv4 address and for one with the loopback only.
\<close>

theorem getHostIP_default_gateway_witness:
  "getHostIP fs_route os_example = ''10.0.2.2'' \<and>
   getHostIP fs_bare os_example = ''172.17.0.2'' \<and>
   getHostIP fs_bare os_loopback_only = ''Non disponible''"
proof -
  let ?head = "''Iface Destination Gateway Flags RefCnt Use Metric Mask''"
  let ?eth = "''eth0 00000000 0202000A 0003 0 0 0 00000000''"
  let ?net = "''eth0 0002000A 00000000 0001 0 0 0 00FFFFFF''"
  have doc: "readHostFile_v2 fs_route ''/proc/net/route'' (\<lambda>_. []) =
      Inr (?head @ [CHR 0x0A] @ ?eth @ [CHR 0x0A] @ ?net)"
    by (simp add: readHostFile_v2_eq holds_text_def file_text_def fs_route_def fs_of_def
        isHostMounted_def HOST_ROOT_def trim_def isSpace_def)
  have lines: "split_newline (?head @ [CHR 0x0A] @ ?eth @ [CHR 0x0A] @ ?net) = [?head] @ ?eth # [?net]"
    by simp
  have head: "list_all route_skipped [?head]"
    by (simp add: route_skipped_def is_default_route_def route_fields_def trim_def isSpace_def)
  have eth: "is_default_route ?eth" "gateway_field ?eth = ''0202000A''"
    by (simp_all add: is_default_route_def gateway_field_def route_fields_def trim_def isSpace_def)
  from getHostIP_default_gateway [OF doc, of os_example] lines head eth
  have a: "getHostIP fs_route os_example = ''10.0.2.2''"
    by blast
  have none: "readHostFile_v2 fs_bare ''/proc/net/route'' (\<lambda>_. []) = Inr []"
    by (simp add: readHostFile_v2_eq holds_text_def fs_bare_def fs_of_def isHostMounted_def
        HOST_ROOT_def)
  have skipped: "list_all route_skipped (split_newline [])"
    by (simp add: route_skipped_def is_default_route_def route_fields_def trim_def)
  have ext: "external_ipv4 os_example = Some \<lparr>address = ''172.17.0.2'', family = ''IPv4'', internal = False\<rparr>"
    "external_ipv4 os_loopback_only = None"
    by (simp_all add: external_ipv4_def os_example_def os_loopback_only_def)
  from getHostIP_default_gateway [OF none, of os_example] skipped ext(1)
  have b: "getHostIP fs_bare os_example = ''172.17.0.2''"
    by simp
  from getHostIP_default_gateway [OF none, of os_loopback_only] skipped ext(2)
  have c: "getHostIP fs_bare os_loopback_only = ''Non disponible''"
    by simp
  from a b c show ?thesis by simp
qed

end
